theory Spec2Isabelle
  imports Complex_Main
begin

section \<open>Price import and export service: model of main.go\<close>

text \<open>
  The service has two handlers on one table \<open>prices\<close>: \<open>handlePostPrices\<close> imports an
  uploaded ZIP archive holding a CSV file, \<open>handleGetPrices\<close> exports the table as a ZIP
  archive holding \<open>data.csv\<close>. The handlers are modelled as functions from the request and
  the table to the response and the new table. What the Go standard library and the
  database decide (whether bytes are a ZIP archive, what the CSV reader returns, whether a
  statement succeeds) is input to the model: it is part of the request value or of the
  environment record, so every error branch of the source is a branch here.
\<close>

subsection \<open>Strings\<close>

text \<open>\<open>strings.HasSuffix\<close>: \<open>len(s) >= len(suffix) && s[len(s)-len(suffix):] == suffix\<close>.\<close>

definition HasSuffix :: "string \<Rightarrow> string \<Rightarrow> bool" where
  "HasSuffix s suf = (length suf \<le> length s \<and> drop (length s - length suf) s = suf)"

definition HasPrefix :: "string \<Rightarrow> string \<Rightarrow> bool" where
  "HasPrefix s pre = (length pre \<le> length s \<and> take (length pre) s = pre)"

text \<open>\<open>strings.Contains\<close>: the substring occurs at some offset.\<close>

fun Contains :: "string \<Rightarrow> string \<Rightarrow> bool" where
  "Contains [] sub = (sub = [])"
| "Contains (c # cs) sub = (HasPrefix (c # cs) sub \<or> Contains cs sub)"

definition isDigit :: "char \<Rightarrow> bool" where
  "isDigit c = (c \<in> set ''0123456789'')"

definition digitVal :: "char \<Rightarrow> int" where
  "digitVal c = of_char c - 48"

text \<open>The value of a string of decimal digits, most significant first.\<close>

definition digitsVal :: "string \<Rightarrow> int" where
  "digitsVal ds = foldl (\<lambda>n c. n * 10 + digitVal c) 0 ds"

subsection \<open>Conversions of the standard library\<close>

text \<open>
  A Go conversion returns a value and an error. On a syntax error the value is the zero
  value; on a range error \<open>strconv\<close> returns the nearest representable value. The source
  discards the error (\<open>productID, _ := strconv.Atoi(record[0])\<close>) and keeps the value.
\<close>

datatype 'a conv = Ok 'a | ErrSyntax | ErrRange 'a

definition valueOf :: "'a \<Rightarrow> 'a conv \<Rightarrow> 'a" where
  "valueOf z c = (case c of Ok v \<Rightarrow> v | ErrSyntax \<Rightarrow> z | ErrRange v \<Rightarrow> v)"

definition maxUint64 :: int where
  "maxUint64 = 2 ^ 64 - 1"

text \<open>
  The loop of \<open>strconv.ParseUint\<close> in base 10 and 64 bits, character by character: a
  character that is no digit is a syntax error; when the next digit would take the number
  past 64 bits the loop returns the largest value with a range error, and does not look
  at the characters that follow.
\<close>

fun ParseUintLoop :: "string \<Rightarrow> int \<Rightarrow> int conv" where
  "ParseUintLoop [] n = Ok n"
| "ParseUintLoop (c # cs) n =
     (if \<not> isDigit c then ErrSyntax
      else if maxUint64 div 10 + 1 \<le> n then ErrRange maxUint64
      else if maxUint64 < n * 10 + digitVal c then ErrRange maxUint64
      else ParseUintLoop cs (n * 10 + digitVal c))"

definition ParseUint :: "string \<Rightarrow> int conv" where
  "ParseUint s = (if s = [] then ErrSyntax else ParseUintLoop s 0)"

text \<open>
  \<open>strconv.ParseInt(s, 10, 0)\<close> with a 64-bit \<open>int\<close>: an optional sign, then
  \<open>ParseUint\<close>; a syntax error gives 0, and a magnitude outside the signed range, a
  range error of \<open>ParseUint\<close> included, gives the nearest bound with a range error.
\<close>

definition ParseInt :: "string \<Rightarrow> int conv" where
  "ParseInt s =
     (if s = [] then ErrSyntax
      else let neg = (hd s = CHR ''-'');
               ds = (if hd s = CHR ''+'' \<or> hd s = CHR ''-'' then tl s else s)
           in (case ParseUint ds of
                 ErrSyntax \<Rightarrow> ErrSyntax
               | Ok un \<Rightarrow>
                   (if \<not> neg \<and> 2 ^ 63 \<le> un then ErrRange (2 ^ 63 - 1)
                    else if neg \<and> 2 ^ 63 < un then ErrRange (- (2 ^ 63))
                    else Ok (if neg then - un else un))
               | ErrRange un \<Rightarrow>
                   (if \<not> neg \<and> 2 ^ 63 \<le> un then ErrRange (2 ^ 63 - 1)
                    else if neg \<and> 2 ^ 63 < un then ErrRange (- (2 ^ 63))
                    else Ok (if neg then - un else un))))"

text \<open>
  \<open>strconv.Atoi\<close>: \<open>ParseInt(s, 10, 0)\<close>. Its fast path for the strings of fewer than
  19 characters returns the same value and the same kind of error.
\<close>

definition Atoi :: "string \<Rightarrow> int conv" where
  "Atoi s = ParseInt s"

record Date =
  year :: int
  month :: int
  day :: int

text \<open>The zero \<open>time.Time\<close> is January 1 of year 1.\<close>

definition zeroDate :: Date where
  "zeroDate = \<lparr>year = 1, month = 1, day = 1\<rparr>"

definition isLeap :: "int \<Rightarrow> bool" where
  "isLeap y = (y mod 4 = 0 \<and> (y mod 100 \<noteq> 0 \<or> y mod 400 = 0))"

definition daysIn :: "int \<Rightarrow> int \<Rightarrow> int" where
  "daysIn m y =
     (if m = 2 then (if isLeap y then 29 else 28)
      else if m = 4 \<or> m = 6 \<or> m = 9 \<or> m = 11 then 30 else 31)"

text \<open>
  \<open>time.Parse("2006-01-02", s)\<close>: four digits, a dash, two digits, a dash, two digits
  and no further text; the month is in 1..12 and the day exists in that month. Every
  failure returns the zero time with an error.
\<close>

definition parseDate :: "string \<Rightarrow> Date option" where
  "parseDate s =
     (if length s = 10 \<and> list_all isDigit (take 4 s) \<and> s ! 4 = CHR ''-''
         \<and> list_all isDigit (take 2 (drop 5 s)) \<and> s ! 7 = CHR ''-''
         \<and> list_all isDigit (drop 8 s)
      then let y = digitsVal (take 4 s); m = digitsVal (take 2 (drop 5 s));
               d = digitsVal (drop 8 s)
           in if m < 1 \<or> 12 < m then None
              else if d < 1 \<or> daysIn m y < d then None
              else Some \<lparr>year = y, month = m, day = d\<rparr>
      else None)"

definition dateOf :: "string \<Rightarrow> Date" where
  "dateOf s = (case parseDate s of Some d \<Rightarrow> d | None \<Rightarrow> zeroDate)"


subsection \<open>Data model\<close>

text \<open>
  One parsed CSV row, the arguments of the prepared \<open>INSERT\<close>. The column \<open>price\<close> is
  \<open>NUMERIC\<close>, an exact decimal, modelled as a rational; the not-a-number and the infinite
  values of \<open>float64\<close> are outside the model.
\<close>

record PriceRecord =
  productID :: int
  name :: string
  category :: string
  price :: rat
  createDate :: Date

text \<open>A row of the table \<open>prices\<close>: the record and the \<open>SERIAL\<close> identifier.\<close>

record StoredPrice =
  rowID :: int
  item :: PriceRecord

text \<open>The table and the last value of its identifier sequence.\<close>

record table =
  rows :: "StoredPrice list"
  seq :: int

record InsertResult =
  TotalItems :: nat
  TotalCategories :: nat
  TotalPrice :: rat

datatype response =
    HttpError nat string
  | JsonResult InsertResult
  | ZipResponse string "string list list"

subsection \<open>The upload\<close>

text \<open>
  What \<open>csv.Reader.Read\<close> returns, call after call, before \<open>io.EOF\<close>: a record, or an
  error (a malformed line, or a record whose field count differs from the first one's).
  The stream ends with \<open>io.EOF\<close>, or with an error of the underlying reader that every
  further call returns again (\<open>Stuck\<close>).
\<close>

datatype csv_read = Record "string list" | ReadError

datatype stream_end = EOF | Stuck

record csv_stream =
  reads :: "csv_read list"
  ending :: stream_end

text \<open>An entry of the archive: its name and what \<open>file.Open\<close> gives (\<open>None\<close>: an error).\<close>

record zip_file =
  Name :: string
  Open :: "csv_stream option"

text \<open>
  The uploaded file: reading it fails, or it yields bytes that \<open>zip.NewReader\<close> rejects
  (\<open>Bytes None\<close>) or accepts with the list of entries.
\<close>

datatype file_body = ReadFails | Bytes "zip_file list option"

record upload =
  Filename :: string
  body :: file_body

text \<open>
  The request: its \<open>Content-Type\<close> header and the outcome of \<open>ParseMultipartForm\<close>
  (\<open>None\<close>: an error) followed by \<open>FormFile("file")\<close> (\<open>Some None\<close>: no such file).
\<close>

record request =
  ContentType :: string
  form :: "upload option option"

subsection \<open>The environment\<close>

text \<open>
  The library functions the model does not define and the outcomes of the database calls.
  \<open>exec_ok\<close> decides one \<open>INSERT\<close> from the records the transaction has executed so far
  and the record at hand.
\<close>

record env =
  ToLower :: "string \<Rightarrow> string"
  ParseFloat :: "string \<Rightarrow> rat conv"
  begin_ok :: bool
  prepare_ok :: bool
  exec_ok :: "PriceRecord list \<Rightarrow> PriceRecord \<Rightarrow> bool"
  commit_ok :: bool
  count_ok :: bool
  sum_ok :: bool
  select_ok :: bool
  scan_ok :: "StoredPrice \<Rightarrow> bool"
  iter_ok :: bool

subsection \<open>The transaction\<close>

text \<open>The open transaction: every record executed so far and the ones the store took.\<close>

record tx =
  executed :: "PriceRecord list"
  pending :: "PriceRecord list"

definition BeginTx :: tx where
  "BeginTx = \<lparr>executed = [], pending = []\<rparr>"

definition ExecContext :: "env \<Rightarrow> tx \<Rightarrow> PriceRecord \<Rightarrow> tx \<times> bool" where
  "ExecContext e t r =
     (if exec_ok e (executed t) r
      then (\<lparr>executed = executed t @ [r], pending = pending t @ [r]\<rparr>, True)
      else (\<lparr>executed = executed t @ [r], pending = pending t\<rparr>, False))"

text \<open>The rows a commit appends: identifiers follow the sequence, in insertion order.\<close>

definition stored :: "int \<Rightarrow> PriceRecord list \<Rightarrow> StoredPrice list" where
  "stored n rs = map (\<lambda>(i, r). \<lparr>rowID = n + 1 + int i, item = r\<rparr>) (enumerate 0 rs)"

definition Commit :: "env \<Rightarrow> table \<Rightarrow> tx \<Rightarrow> table option" where
  "Commit e db t =
     (if commit_ok e
      then Some \<lparr>rows = rows db @ stored (seq db) (pending t),
                 seq = seq db + int (length (pending t))\<rparr>
      else None)"

text \<open>
  Lines 173 to 175: the typed fields of a record of six or more columns, from the columns
  0, 1, 2, 4 and 5. Every conversion error is discarded.
\<close>

definition parseRecord :: "env \<Rightarrow> string list \<Rightarrow> PriceRecord" where
  "parseRecord e record =
     \<lparr>productID = valueOf 0 (Atoi (record ! 0)),
      name = record ! 1,
      category = record ! 2,
      price = valueOf 0 (ParseFloat e (record ! 4)),
      createDate = dateOf (record ! 5)\<rparr>"

text \<open>The loop of lines 159 to 183 over the reads that precede the end of the stream.\<close>

fun insertLoop :: "env \<Rightarrow> csv_read list \<Rightarrow> tx \<Rightarrow> nat \<Rightarrow> tx \<times> nat" where
  "insertLoop e [] t inserted = (t, inserted)"
| "insertLoop e (ReadError # rs) t inserted = insertLoop e rs t inserted"
| "insertLoop e (Record record # rs) t inserted =
     (if length record < 6 then insertLoop e rs t inserted
      else (case ExecContext e t (parseRecord e record) of
              (t', ok) \<Rightarrow>
                (if \<not> ok then insertLoop e rs t' inserted
                 else insertLoop e rs t' (inserted + 1))))"

subsection \<open>The aggregator\<close>

text \<open>\<open>SUM\<close> over no rows is \<open>NULL\<close>; \<open>COALESCE(x, 0)\<close> replaces \<open>NULL\<close> by the default.\<close>

definition sqlSUM :: "rat list \<Rightarrow> rat option" where
  "sqlSUM xs = (if xs = [] then None else Some (sum_list xs))"

definition sqlCOALESCE :: "'a option \<Rightarrow> 'a \<Rightarrow> 'a" where
  "sqlCOALESCE x d = (case x of None \<Rightarrow> d | Some v \<Rightarrow> v)"

definition sqlCOUNT_DISTINCT :: "'a list \<Rightarrow> nat" where
  "sqlCOUNT_DISTINCT xs = length (remdups xs)"

definition getInsertResult :: "env \<Rightarrow> table \<Rightarrow> nat \<Rightarrow> string + InsertResult" where
  "getInsertResult e db inserted =
     (if \<not> count_ok e then Inl ''error querying total categories''
      else if \<not> sum_ok e then Inl ''error querying total price''
      else Inr \<lparr>TotalItems = inserted,
                TotalCategories = sqlCOUNT_DISTINCT (map (\<lambda>s. category (item s)) (rows db)),
                TotalPrice = sqlCOALESCE (sqlSUM (map (\<lambda>s. price (item s)) (rows db))) 0\<rparr>)"

subsection \<open>The import handler\<close>

fun findCSV :: "zip_file list \<Rightarrow> zip_file option" where
  "findCSV [] = None"
| "findCSV (file # files) =
     (if HasSuffix (Name file) ''data.csv'' then Some file else findCSV files)"

text \<open>
  Lines 130 to 199 of \<open>handlePostPrices\<close>, from \<open>BeginTx\<close> on. The deferred rollback
  leaves the table as it was on every return before a successful commit. The result
  \<open>None\<close> is a handler that never returns: the loop repeats while \<open>Read\<close> keeps returning
  an error other than \<open>io.EOF\<close>.
\<close>

definition runTransaction :: "env \<Rightarrow> zip_file \<Rightarrow> table \<Rightarrow> (response \<times> table) option" where
  "runTransaction e csvFile db =
     (if \<not> begin_ok e then Some (HttpError 500 ''Internal Server Error'', db)
      else if \<not> prepare_ok e then Some (HttpError 500 ''Internal Server Error'', db)
      else (case Open csvFile of
              None \<Rightarrow> Some (HttpError 500 ''Internal Server Error'', db)
            | Some reader \<Rightarrow>
                (case insertLoop e (drop 1 (reads reader)) BeginTx 0 of
                   (t, inserted) \<Rightarrow>
                     (if ending reader = Stuck then None
                      else (case Commit e db t of
                              None \<Rightarrow> Some (HttpError 500 ''Internal Server Error'', db)
                            | Some db' \<Rightarrow>
                                (case getInsertResult e db' inserted of
                                   Inl err \<Rightarrow>
                                     Some (HttpError 500 ''Internal Server Error'', db')
                                 | Inr result \<Rightarrow> Some (JsonResult result, db')))))))"

definition handlePostPrices :: "env \<Rightarrow> request \<Rightarrow> table \<Rightarrow> (response \<times> table) option" where
  "handlePostPrices e r db =
     (if \<not> Contains (ContentType r) ''multipart/form-data''
      then Some (HttpError 400 ''Expected multipart/form-data'', db)
      else (case form r of
              None \<Rightarrow> Some (HttpError 400 ''Bad Request'', db)
            | Some None \<Rightarrow> Some (HttpError 400 ''Bad Request'', db)
            | Some (Some header) \<Rightarrow>
                (if \<not> HasSuffix (ToLower e (Filename header)) ''.zip''
                 then Some (HttpError 400 ''File must be a ZIP archive'', db)
                 else (case body header of
                         ReadFails \<Rightarrow> Some (HttpError 500 ''Internal Server Error'', db)
                       | Bytes None \<Rightarrow> Some (HttpError 400 ''Bad Request'', db)
                       | Bytes (Some files) \<Rightarrow>
                           (case findCSV files of
                              None \<Rightarrow> Some (HttpError 400 ''CSV file not found in ZIP'', db)
                            | Some csvFile \<Rightarrow> runTransaction e csvFile db)))))"

subsection \<open>The export handler\<close>

fun digitsOf :: "nat \<Rightarrow> string" where
  "digitsOf n =
     (if n < 10 then [''0123456789'' ! n]
      else digitsOf (n div 10) @ [''0123456789'' ! (n mod 10)])"

text \<open>\<open>strconv.Itoa\<close>.\<close>

definition Itoa :: "int \<Rightarrow> string" where
  "Itoa i = (if i < 0 then CHR ''-'' # digitsOf (nat (- i)) else digitsOf (nat i))"

definition zeroPad :: "nat \<Rightarrow> string \<Rightarrow> string" where
  "zeroPad k s = replicate (k - length s) CHR ''0'' @ s"

definition roundHalfEven :: "rat \<Rightarrow> int" where
  "roundHalfEven x =
     (let f = \<lfloor>x\<rfloor>; d = x - of_int f
      in if d < 1 / 2 then f else if 1 / 2 < d then f + 1
         else if even f then f else f + 1)"

text \<open>
  \<open>fmt.Sprintf("%.2f", price)\<close>: two decimals, the exact value rounded to the nearest
  hundredth, a tie to the even one.
\<close>

definition Sprintf2f :: "rat \<Rightarrow> string" where
  "Sprintf2f p =
     (let h = nat (roundHalfEven (\<bar>p\<bar> * 100));
          s = digitsOf (h div 100) @ ''.'' @ zeroPad 2 (digitsOf (h mod 100))
      in if p < 0 then CHR ''-'' # s else s)"

text \<open>\<open>createDate.Format("2006-01-02")\<close>, for the years from 0 on.\<close>

definition FormatDate :: "Date \<Rightarrow> string" where
  "FormatDate d =
     zeroPad 4 (digitsOf (nat (year d))) @ ''-'' @ zeroPad 2 (digitsOf (nat (month d)))
       @ ''-'' @ zeroPad 2 (digitsOf (nat (day d)))"

text \<open>Lines 228 to 235: the six columns written for one row.\<close>

definition exportRow :: "StoredPrice \<Rightarrow> string list" where
  "exportRow s =
     [Itoa (rowID s), Itoa (productID (item s)), name (item s), category (item s),
      Sprintf2f (price (item s)), FormatDate (createDate (item s))]"

text \<open>The loop of lines 216 to 236: a row that does not scan ends the request.\<close>

fun scanRows :: "env \<Rightarrow> StoredPrice list \<Rightarrow> string list list \<Rightarrow> string list list option" where
  "scanRows e [] all = Some all"
| "scanRows e (s # ss) all =
     (if \<not> scan_ok e s then None else scanRows e ss (all @ [exportRow s]))"

text \<open>
  \<open>handleGetPrices\<close>: the rows in the order of their identifiers, under a header line,
  as the single entry \<open>data.csv\<close> of an archive. The writes go to buffers in memory and
  do not fail.
\<close>

definition handleGetPrices :: "env \<Rightarrow> table \<Rightarrow> response" where
  "handleGetPrices e db =
     (if \<not> select_ok e then HttpError 500 ''Internal Server Error''
      else (case scanRows e (sort_key rowID (rows db))
                   [[''id'', ''product_id'', ''name'', ''category'', ''price'', ''create_date'']] of
              None \<Rightarrow> HttpError 500 ''Internal Server Error''
            | Some all \<Rightarrow>
                (if \<not> iter_ok e then HttpError 500 ''Internal Server Error''
                 else ZipResponse ''data.csv'' all)))"

text \<open>
  The exported archive sent back as an upload named \<open>prices.zip\<close>: \<open>zip.NewReader\<close>
  finds the entry that was written and \<open>csv.Reader\<close> returns the records that
  \<open>csv.Writer\<close> wrote, one read per record, then \<open>io.EOF\<close>.
\<close>

definition uploadOf :: "string \<Rightarrow> string list list \<Rightarrow> request" where
  "uploadOf entry all =
     \<lparr>ContentType = ''multipart/form-data; boundary=x'',
      form = Some (Some \<lparr>Filename = ''prices.zip'',
        body = Bytes (Some [\<lparr>Name = entry,
          Open = Some \<lparr>reads = map Record all, ending = EOF\<rparr>\<rparr>])\<rparr>)\<rparr>"

text \<open>Export, then import of what was exported, on the same table.\<close>

definition roundTrip :: "env \<Rightarrow> table \<Rightarrow> (response \<times> table) option" where
  "roundTrip e db =
     (case handleGetPrices e db of
        ZipResponse entry all \<Rightarrow> handlePostPrices e (uploadOf entry all) db
      | other \<Rightarrow> Some (other, db))"

subsection \<open>An environment for the examples\<close>

text \<open>Lower case for the letters A to Z, every other character as it is.\<close>

definition asciiLower :: "string \<Rightarrow> string" where
  "asciiLower s =
     map (\<lambda>c. case map_of (zip ''ABCDEFGHIJKLMNOPQRSTUVWXYZ'' ''abcdefghijklmnopqrstuvwxyz'') c of
                 None \<Rightarrow> c | Some l \<Rightarrow> l) s"

text \<open>
  Plain decimals: an optional sign, digits, optionally a point and digits, at least one
  digit in all. On these \<open>strconv.ParseFloat\<close> succeeds, and returns this value when
  \<open>float64\<close> represents it; every other string is a syntax error here.
\<close>

definition plainDecimal :: "string \<Rightarrow> rat conv" where
  "plainDecimal s =
     (let neg = (s \<noteq> [] \<and> hd s = CHR ''-'');
          ds = (if s \<noteq> [] \<and> (hd s = CHR ''-'' \<or> hd s = CHR ''+'') then tl s else s);
          ip = takeWhile (\<lambda>c. c \<noteq> CHR ''.'') ds;
          fp = drop 1 (dropWhile (\<lambda>c. c \<noteq> CHR ''.'') ds)
      in if ip @ fp = [] \<or> \<not> list_all isDigit (ip @ fp) then ErrSyntax
         else let v = of_int (digitsVal (ip @ fp)) / 10 ^ length fp
              in Ok (if neg then - v else v))"

text \<open>A database on which every call succeeds.\<close>

definition okEnv :: env where
  "okEnv =
     \<lparr>ToLower = asciiLower, ParseFloat = plainDecimal, begin_ok = True, prepare_ok = True,
      exec_ok = (\<lambda>h r. True), commit_ok = True, count_ok = True, sum_ok = True,
      select_ok = True, scan_ok = (\<lambda>s. True), iter_ok = True\<rparr>"

definition emptyTable :: table where
  "emptyTable = \<lparr>rows = [], seq = 0\<rparr>"

subsection \<open>Notions used to state the properties\<close>

text \<open>
  The entries of the archive, when the request passes every check before \<open>findCSV\<close>
  (lines 84 to 121).
\<close>

definition archiveOf :: "env \<Rightarrow> request \<Rightarrow> zip_file list option" where
  "archiveOf e r =
     (if \<not> Contains (ContentType r) ''multipart/form-data'' then None
      else (case form r of
              Some (Some header) \<Rightarrow>
                (if \<not> HasSuffix (ToLower e (Filename header)) ''.zip'' then None
                 else (case body header of Bytes (Some files) \<Rightarrow> Some files | _ \<Rightarrow> None))
            | _ \<Rightarrow> None))"

text \<open>The CSV stream of the entry the handler selects and opens.\<close>

definition uploadedCSV :: "env \<Rightarrow> request \<Rightarrow> csv_stream option" where
  "uploadedCSV e r =
     (case archiveOf e r of
        None \<Rightarrow> None
      | Some files \<Rightarrow> (case findCSV files of None \<Rightarrow> None | Some csvFile \<Rightarrow> Open csvFile))"

text \<open>The data rows: the records read after the first read, which is the header.\<close>

definition dataRows :: "csv_stream \<Rightarrow> string list list" where
  "dataRows st = concat (map (\<lambda>x. case x of Record r \<Rightarrow> [r] | ReadError \<Rightarrow> []) (drop 1 (reads st)))"

text \<open>
  The count as the specification words it: among the data rows of six or more columns, in
  order, those whose insert succeeds; the insert of the \<open>i\<close>-th one is decided after the
  \<open>i\<close> before it have been executed.
\<close>

definition insertedCountSpec :: "env \<Rightarrow> csv_stream \<Rightarrow> nat" where
  "insertedCountSpec e st =
     (let recs = map (parseRecord e) (filter (\<lambda>r. 6 \<le> length r) (dataRows st))
      in length (filter (\<lambda>i. exec_ok e (take i recs) (recs ! i)) [0..<length recs]))"

text \<open>The records the store takes, of a list executed in order after the history \<open>h\<close>.\<close>

fun accepted :: "env \<Rightarrow> PriceRecord list \<Rightarrow> PriceRecord list \<Rightarrow> PriceRecord list" where
  "accepted e h [] = []"
| "accepted e h (r # rs) =
     (if exec_ok e h r then r # accepted e (h @ [r]) rs else accepted e (h @ [r]) rs)"

text \<open>The records the loop executes: one for each record read with six or more columns.\<close>

definition attempts :: "env \<Rightarrow> csv_read list \<Rightarrow> PriceRecord list" where
  "attempts e rs =
     map (parseRecord e)
       (filter (\<lambda>r. 6 \<le> length r)
          (concat (map (\<lambda>x. case x of Record r \<Rightarrow> [r] | ReadError \<Rightarrow> []) rs)))"

text \<open>The request is not a recognised archive upload: not multipart, no file, bytes that
  are no archive, or an archive without the data entry.\<close>

definition notRecognized :: "request \<Rightarrow> bool" where
  "notRecognized r =
     (\<not> Contains (ContentType r) ''multipart/form-data'' \<or>
      (case form r of
         None \<Rightarrow> True
       | Some None \<Rightarrow> True
       | Some (Some header) \<Rightarrow>
           (case body header of
              ReadFails \<Rightarrow> False
            | Bytes None \<Rightarrow> True
            | Bytes (Some files) \<Rightarrow> findCSV files = None)))"

text \<open>
  The column \<open>product_id\<close> is \<open>INT\<close>: a store that refuses a product identifier outside
  32 bits and takes every other record.
\<close>

definition int32Env :: env where
  "int32Env = okEnv\<lparr>exec_ok := (\<lambda>h r. - (2 ^ 31) \<le> productID r \<and> productID r < 2 ^ 31)\<rparr>"

text \<open>An upload: a header, two good rows, a row of five columns and a row the store refuses.\<close>

definition sampleRows :: "string list list" where
  "sampleRows =
     [[''id'', ''name'', ''category'', ''x'', ''price'', ''date''],
      [''1'', ''pen'', ''office'', ''x'', ''10.00'', ''2024-01-02''],
      [''3'', ''cup'', ''home'', ''30.00'', ''2024-01-04''],
      [''99999999999'', ''jar'', ''home'', ''x'', ''5.00'', ''2024-01-05''],
      [''2'', ''ink'', ''office'', ''x'', ''20.50'', ''2024-01-03'']]"

definition sampleTable :: table where
  "sampleTable =
     \<lparr>rows = [\<lparr>rowID = 1, item = \<lparr>productID = 1, name = ''pen'', category = ''office'',
                 price = 10, createDate = \<lparr>year = 2024, month = 1, day = 2\<rparr>\<rparr>\<rparr>,
               \<lparr>rowID = 2, item = \<lparr>productID = 2, name = ''ink'', category = ''office'',
                 price = 41 / 2, createDate = \<lparr>year = 2024, month = 1, day = 3\<rparr>\<rparr>\<rparr>],
      seq = 2\<rparr>"



text \<open>Uploads that are no archive: no multipart body, bytes that are no archive, an
  archive without the data entry; and an archive under a name that does not end in
  \<open>.zip\<close>.\<close>

definition textUpload :: request where
  "textUpload = \<lparr>ContentType = ''application/json'', form = None\<rparr>"

definition garbageUpload :: request where
  "garbageUpload =
     \<lparr>ContentType = ''multipart/form-data; boundary=x'',
      form = Some (Some \<lparr>Filename = ''prices.zip'', body = Bytes None\<rparr>)\<rparr>"

definition readmeUpload :: request where
  "readmeUpload =
     \<lparr>ContentType = ''multipart/form-data; boundary=x'',
      form = Some (Some \<lparr>Filename = ''prices.zip'',
        body = Bytes (Some [\<lparr>Name = ''readme.txt'', Open = Some \<lparr>reads = [], ending = EOF\<rparr>\<rparr>])\<rparr>)\<rparr>"

definition renamedUpload :: request where
  "renamedUpload =
     \<lparr>ContentType = ''multipart/form-data; boundary=x'',
      form = Some (Some \<lparr>Filename = ''prices.ZIP.bak'',
        body = Bytes (Some [\<lparr>Name = ''data.csv'',
          Open = Some \<lparr>reads = map Record sampleRows, ending = EOF\<rparr>\<rparr>])\<rparr>)\<rparr>"

text \<open>An archive whose data file lies in a directory, after an entry that is not the data
  file.\<close>

definition nestedUpload :: request where
  "nestedUpload =
     \<lparr>ContentType = ''multipart/form-data; boundary=x'',
      form = Some (Some \<lparr>Filename = ''prices.zip'',
        body = Bytes (Some [\<lparr>Name = ''notes.txt'', Open = None\<rparr>,
                            \<lparr>Name = ''foo/data.csv'',
                             Open = Some \<lparr>reads = map Record sampleRows, ending = EOF\<rparr>\<rparr>])\<rparr>)\<rparr>"

text \<open>A table of one row whose product identifier differs from its row identifier.\<close>

definition fruitTable :: table where
  "fruitTable =
     \<lparr>rows = [\<lparr>rowID = 1, item = \<lparr>productID = 7, name = ''apple'', category = ''fruit'',
                 price = 21 / 2, createDate = \<lparr>year = 2024, month = 1, day = 15\<rparr>\<rparr>\<rparr>],
      seq = 1\<rparr>"



section \<open>Properties\<close>

subsection \<open>The loop\<close>

lemma insertLoop_closed:
  "insertLoop e rs t n =
     (\<lparr>executed = executed t @ attempts e rs,
       pending = pending t @ accepted e (executed t) (attempts e rs)\<rparr>,
      n + length (accepted e (executed t) (attempts e rs)))"
proof (induction rs arbitrary: t n)
  case Nil
  show ?case by (simp add: attempts_def)
next
  case (Cons x rs)
  show ?case
  proof (cases x)
    case ReadError
    with Cons show ?thesis by (simp add: attempts_def)
  next
    case (Record r)
    show ?thesis
    proof (cases "length r < 6")
      case True
      with Record Cons show ?thesis by (simp add: attempts_def)
    next
      case False
      with Record Cons show ?thesis
        by (simp add: attempts_def ExecContext_def)
    qed
  qed
qed

lemma accepted_count:
  "length (accepted e h rs) =
     length (filter (\<lambda>i. exec_ok e (h @ take i rs) (rs ! i)) [0..<length rs])"
proof (induction rs arbitrary: h)
  case Nil
  show ?case by simp
next
  case (Cons r rs)
  have "[0..<length (r # rs)] = 0 # map Suc [0..<length rs]"
    by (simp add: upt_conv_Cons map_Suc_upt del: upt_Suc)
  then show ?case
    using Cons [of "h @ [r]"] by (simp add: filter_map o_def del: upt_Suc)
qed

lemma accepted_subset: "set (accepted e h rs) \<subseteq> set rs"
  by (induction rs arbitrary: h) auto


lemma attempts_dataRows:
  "attempts e (drop 1 (reads st)) = map (parseRecord e) (filter (\<lambda>r. 6 \<le> length r) (dataRows st))"
  by (simp add: attempts_def dataRows_def)

lemma handlePostPrices_archive:
  "archiveOf e r = Some files \<Longrightarrow>
   handlePostPrices e r db =
     (case findCSV files of
        None \<Rightarrow> Some (HttpError 400 ''CSV file not found in ZIP'', db)
      | Some csvFile \<Rightarrow> runTransaction e csvFile db)"
  by (auto simp: archiveOf_def handlePostPrices_def
           split: if_splits option.splits file_body.splits)

lemma handlePostPrices_no_archive:
  "archiveOf e r = None \<Longrightarrow>
   \<exists>c m. handlePostPrices e r db = Some (HttpError c m, db)"
  by (auto simp: archiveOf_def handlePostPrices_def
           split: if_splits option.splits file_body.splits)

lemma runTransaction_json:
  "runTransaction e f db = Some (JsonResult res, db') \<Longrightarrow>
   \<exists>st. Open f = Some st \<and> ending st = EOF \<and> commit_ok e \<and>
     db' = \<lparr>rows = rows db @ stored (seq db) (accepted e [] (attempts e (drop 1 (reads st)))),
            seq = seq db + int (length (accepted e [] (attempts e (drop 1 (reads st)))))\<rparr> \<and>
     getInsertResult e db' (length (accepted e [] (attempts e (drop 1 (reads st))))) = Inr res"
  by (cases "ending (the (Open f))")
     (auto simp: runTransaction_def insertLoop_closed BeginTx_def Commit_def
           split: if_splits option.splits sum.splits)

subsection \<open>Evaluation on the examples\<close>

lemmas eval_defs =
  handlePostPrices_def runTransaction_def uploadOf_def okEnv_def int32Env_def emptyTable_def
  HasSuffix_def HasPrefix_def asciiLower_def plainDecimal_def BeginTx_def ExecContext_def
  Commit_def stored_def getInsertResult_def parseRecord_def valueOf_def dateOf_def
  Atoi_def ParseInt_def ParseUint_def maxUint64_def parseDate_def isDigit_def digitsVal_def
  digitVal_def
  daysIn_def isLeap_def zeroDate_def sqlSUM_def sqlCOALESCE_def sqlCOUNT_DISTINCT_def
  enumerate_eq_zip

lemma sample_import:
  "handlePostPrices int32Env (uploadOf ''data.csv'' sampleRows) emptyTable =
     Some (JsonResult \<lparr>TotalItems = 2, TotalCategories = 1, TotalPrice = 61 / 2\<rparr>, sampleTable)"
  by (simp add: eval_defs sampleRows_def sampleTable_def)


lemma uploadedCSV_uploadOf:
  "ToLower e ''prices.zip'' = ''prices.zip'' \<Longrightarrow> HasSuffix entry ''data.csv'' \<Longrightarrow>
   uploadedCSV e (uploadOf entry all) = Some \<lparr>reads = map Record all, ending = EOF\<rparr>"
  by (simp add: uploadedCSV_def archiveOf_def uploadOf_def HasPrefix_def)
     (simp add: HasSuffix_def)



subsection \<open>The inserted count\<close>

text \<open>
  C2. When the upload is answered with the summary, \<open>TotalItems\<close> is the number of data
  rows after the header that have six or more columns and whose insert succeeded, and the
  table has grown by exactly that many rows.
\<close>

theorem totalItems_counts_inserted_rows:
  assumes "handlePostPrices e r db = Some (JsonResult res, db')"
  shows "\<exists>st. uploadedCSV e r = Some st \<and> TotalItems res = insertedCountSpec e st \<and>
              length (rows db') = length (rows db) + TotalItems res"
proof -
  obtain files where a: "archiveOf e r = Some files"
    using assms handlePostPrices_no_archive [of e r db] by (cases "archiveOf e r") auto
  from assms a obtain f where f: "findCSV files = Some f"
    and run: "runTransaction e f db = Some (JsonResult res, db')"
    by (auto simp: handlePostPrices_archive split: option.splits)
  from runTransaction_json [OF run] obtain st where st: "Open f = Some st"
    and db': "db' = \<lparr>rows = rows db @ stored (seq db) (accepted e [] (attempts e (drop 1 (reads st)))),
            seq = seq db + int (length (accepted e [] (attempts e (drop 1 (reads st)))))\<rparr>"
    and res: "getInsertResult e db' (length (accepted e [] (attempts e (drop 1 (reads st))))) = Inr res"
    by blast
  have up: "uploadedCSV e r = Some st"
    by (simp add: uploadedCSV_def a f st)
  have n: "TotalItems res = length (accepted e [] (attempts e (drop 1 (reads st))))"
    using res by (auto simp: getInsertResult_def split: if_splits)
  have spec: "length (accepted e [] (attempts e (drop 1 (reads st)))) = insertedCountSpec e st"
    unfolding attempts_dataRows insertedCountSpec_def Let_def by (simp add: accepted_count)
  have len: "length (rows db') = length (rows db) + TotalItems res"
    by (subst db') (simp add: n stored_def)
  from up n spec len show ?thesis by simp
qed

theorem totalItems_counts_inserted_rows_witness:
  "handlePostPrices int32Env (uploadOf ''data.csv'' sampleRows) emptyTable =
     Some (JsonResult \<lparr>TotalItems = 2, TotalCategories = 1, TotalPrice = 61 / 2\<rparr>, sampleTable)
   \<and> (\<exists>st. uploadedCSV int32Env (uploadOf ''data.csv'' sampleRows) = Some st \<and>
            insertedCountSpec int32Env st = 2 \<and>
            length (rows sampleTable) = length (rows emptyTable) + 2)"
  using totalItems_counts_inserted_rows [OF sample_import] sample_import by simp

subsection \<open>Lenient conversions\<close>










subsection \<open>Short rows\<close>

lemma attempts_skip:
  "length record < 6 \<Longrightarrow> attempts e (pre @ Record record # post) = attempts e (pre @ post)"
  by (simp add: attempts_def)

lemma attempts_skip_error: "attempts e (pre @ ReadError # post) = attempts e (pre @ post)"
  by (simp add: attempts_def)

text \<open>
  C4. A data row of fewer than six columns is skipped: the transaction, and the whole
  handler on an uploaded CSV file, give the response and the table they give for the same
  stream without that row, so the row is in no table and in no error. The same holds for
  a row that the CSV reader returns with an error, as it does for a row whose number of
  columns differs from the header's.
\<close>

theorem short_row_is_skipped:
  assumes "length record < 6"
  shows "runTransaction e (csvFile\<lparr>Open := Some \<lparr>reads = header # pre @ Record record # post,
                                                 ending = en\<rparr>\<rparr>) db =
         runTransaction e (csvFile\<lparr>Open := Some \<lparr>reads = header # pre @ post,
                                                 ending = en\<rparr>\<rparr>) db \<and>
         runTransaction e (csvFile\<lparr>Open := Some \<lparr>reads = header # pre @ ReadError # post,
                                                 ending = en\<rparr>\<rparr>) db =
         runTransaction e (csvFile\<lparr>Open := Some \<lparr>reads = header # pre @ post,
                                                 ending = en\<rparr>\<rparr>) db \<and>
         handlePostPrices e (uploadOf entry (h # xs @ record # ys)) db =
         handlePostPrices e (uploadOf entry (h # xs @ ys)) db"
proof -
  have loop: "insertLoop e (pre @ Record record # post) BeginTx 0 =
              insertLoop e (pre @ post) BeginTx 0" for pre post
    by (simp add: insertLoop_closed attempts_skip [OF assms])
  have loop_error: "insertLoop e (pre @ ReadError # post) BeginTx 0 =
                    insertLoop e (pre @ post) BeginTx 0"
    by (simp add: insertLoop_closed attempts_skip_error)
  have run: "runTransaction e (csvFile\<lparr>Open := Some \<lparr>reads = header # pre @ Record record # post,
                                                 ending = en\<rparr>\<rparr>) db =
             runTransaction e (csvFile\<lparr>Open := Some \<lparr>reads = header # pre @ post,
                                                 ending = en\<rparr>\<rparr>) db"
    by (simp add: runTransaction_def loop)
  have run_error: "runTransaction e (csvFile\<lparr>Open := Some \<lparr>reads = header # pre @ ReadError # post,
                                                 ending = en\<rparr>\<rparr>) db =
             runTransaction e (csvFile\<lparr>Open := Some \<lparr>reads = header # pre @ post,
                                                 ending = en\<rparr>\<rparr>) db"
    by (simp add: runTransaction_def loop_error)
  have "runTransaction e \<lparr>Name = entry, Open = Some \<lparr>reads = Record h # map Record xs @
            Record record # map Record ys, ending = EOF\<rparr>\<rparr> db =
        runTransaction e \<lparr>Name = entry, Open = Some \<lparr>reads = Record h # map Record xs @
            map Record ys, ending = EOF\<rparr>\<rparr> db"
    by (simp add: runTransaction_def loop)
  then have "handlePostPrices e (uploadOf entry (h # xs @ record # ys)) db =
             handlePostPrices e (uploadOf entry (h # xs @ ys)) db"
    by (simp add: handlePostPrices_def uploadOf_def)
  with run run_error show ?thesis by blast
qed

theorem short_row_is_skipped_witness:
  "length [''3'', ''cup'', ''home'', ''30.00'', ''2024-01-04''] < 6 \<and>
   handlePostPrices int32Env (uploadOf ''data.csv'' sampleRows) emptyTable =
   handlePostPrices int32Env (uploadOf ''data.csv''
     [[''id'', ''name'', ''category'', ''x'', ''price'', ''date''],
      [''1'', ''pen'', ''office'', ''x'', ''10.00'', ''2024-01-02''],
      [''99999999999'', ''jar'', ''home'', ''x'', ''5.00'', ''2024-01-05''],
      [''2'', ''ink'', ''office'', ''x'', ''20.50'', ''2024-01-03'']]) emptyTable \<and>
   handlePostPrices int32Env (uploadOf ''data.csv'' sampleRows) emptyTable =
     Some (JsonResult \<lparr>TotalItems = 2, TotalCategories = 1, TotalPrice = 61 / 2\<rparr>, sampleTable)"
proof -
  have l: "length [''3'', ''cup'', ''home'', ''30.00'', ''2024-01-04''] < 6" by simp
  from short_row_is_skipped [OF l, where e = int32Env and entry = "''data.csv''"
      and db = emptyTable
      and h = "[''id'', ''name'', ''category'', ''x'', ''price'', ''date'']"
      and xs = "[[''1'', ''pen'', ''office'', ''x'', ''10.00'', ''2024-01-02'']]"
      and ys = "[[''99999999999'', ''jar'', ''home'', ''x'', ''5.00'', ''2024-01-05''],
                 [''2'', ''ink'', ''office'', ''x'', ''20.50'', ''2024-01-03'']]"]
  show ?thesis using sample_import by (simp add: sampleRows_def)
qed

subsection \<open>Commit failure\<close>

lemma uploadedCSV_run:
  assumes "uploadedCSV e r = Some st"
  shows "\<exists>f. Open f = Some st \<and> handlePostPrices e r db = runTransaction e f db"
proof -
  from assms obtain files where a: "archiveOf e r = Some files"
    by (auto simp: uploadedCSV_def split: option.splits)
  with assms obtain f where f: "findCSV files = Some f" and o: "Open f = Some st"
    by (auto simp: uploadedCSV_def split: option.splits)
  from handlePostPrices_archive [OF a, of db] f o show ?thesis by auto
qed

lemma runTransaction_no_commit:
  "\<not> commit_ok e \<Longrightarrow> runTransaction e f db = Some (resp, db') \<Longrightarrow>
   db' = db \<and> resp = HttpError 500 ''Internal Server Error''"
  by (auto simp: runTransaction_def Commit_def split: if_splits option.splits prod.splits)

text \<open>
  C5. When the commit fails, whatever the handler returns comes with the table as it was
  before the request and is an error response; and a request whose transaction got as far
  as the commit is answered 500, with no row of the batch in the table.
\<close>

theorem commit_failure_rolls_back:
  assumes "\<not> commit_ok e"
  shows "(handlePostPrices e r db = Some (resp, db') \<longrightarrow>
            db' = db \<and> (\<exists>c m. resp = HttpError c m)) \<and>
         (uploadedCSV e r = Some st \<and> ending st = EOF \<and> begin_ok e \<and> prepare_ok e \<longrightarrow>
            handlePostPrices e r db = Some (HttpError 500 ''Internal Server Error'', db))"
proof -
  have one: "handlePostPrices e r db = Some (resp, db') \<longrightarrow>
            db' = db \<and> (\<exists>c m. resp = HttpError c m)"
  proof (cases "archiveOf e r")
    case None
    from handlePostPrices_no_archive [OF None, of db] show ?thesis by auto
  next
    case (Some files)
    show ?thesis
      by (auto simp: handlePostPrices_archive [OF Some] split: option.splits
               dest: runTransaction_no_commit [OF assms])
  qed
  have two: "uploadedCSV e r = Some st \<and> ending st = EOF \<and> begin_ok e \<and> prepare_ok e \<longrightarrow>
            handlePostPrices e r db = Some (HttpError 500 ''Internal Server Error'', db)"
  proof (intro impI, elim conjE)
    assume u: "uploadedCSV e r = Some st" and en: "ending st = EOF"
      and b: "begin_ok e" and p: "prepare_ok e"
    from uploadedCSV_run [OF u, of db] obtain f where o: "Open f = Some st"
      and h: "handlePostPrices e r db = runTransaction e f db" by blast
    have "runTransaction e f db = Some (HttpError 500 ''Internal Server Error'', db)"
      using assms en b p o
      by (simp add: runTransaction_def Commit_def split: prod.splits)
    with h show "handlePostPrices e r db = Some (HttpError 500 ''Internal Server Error'', db)"
      by simp
  qed
  from one two show ?thesis by blast
qed

theorem commit_failure_rolls_back_witness:
  "\<not> commit_ok (int32Env\<lparr>commit_ok := False\<rparr>) \<and>
   handlePostPrices (int32Env\<lparr>commit_ok := False\<rparr>) (uploadOf ''data.csv'' sampleRows) sampleTable =
     Some (HttpError 500 ''Internal Server Error'', sampleTable) \<and>
   handlePostPrices int32Env (uploadOf ''data.csv'' sampleRows) emptyTable =
     Some (JsonResult \<lparr>TotalItems = 2, TotalCategories = 1, TotalPrice = 61 / 2\<rparr>, sampleTable)"
proof -
  have c: "\<not> commit_ok (int32Env\<lparr>commit_ok := False\<rparr>)" by simp
  have u: "uploadedCSV (int32Env\<lparr>commit_ok := False\<rparr>) (uploadOf ''data.csv'' sampleRows) =
             Some \<lparr>reads = map Record sampleRows, ending = EOF\<rparr>"
    by (rule uploadedCSV_uploadOf) (simp_all add: int32Env_def okEnv_def asciiLower_def HasSuffix_def)
  have g: "begin_ok (int32Env\<lparr>commit_ok := False\<rparr>) \<and> prepare_ok (int32Env\<lparr>commit_ok := False\<rparr>)"
    by (simp add: int32Env_def okEnv_def)
  from commit_failure_rolls_back [OF c, of "uploadOf ''data.csv'' sampleRows" sampleTable
      _ _ "\<lparr>reads = map Record sampleRows, ending = EOF\<rparr>"] u g
  have "handlePostPrices (int32Env\<lparr>commit_ok := False\<rparr>) (uploadOf ''data.csv'' sampleRows) sampleTable =
     Some (HttpError 500 ''Internal Server Error'', sampleTable)" by simp
  with c sample_import show ?thesis by blast
qed

subsection \<open>Aggregation failure\<close>

lemma accepted_cong:
  "exec_ok e' = exec_ok e \<Longrightarrow> accepted e' h rs = accepted e h rs"
  by (induction rs arbitrary: h) auto

lemma parseRecord_cong:
  "ParseFloat e' = ParseFloat e \<Longrightarrow> parseRecord e' = parseRecord e"
  by (rule ext) (simp add: parseRecord_def)

lemma attempts_cong:
  "ParseFloat e' = ParseFloat e \<Longrightarrow> attempts e' rs = attempts e rs"
  by (simp add: attempts_def parseRecord_cong [of e' e])

lemma insertLoop_cong:
  "ParseFloat e' = ParseFloat e \<Longrightarrow> exec_ok e' = exec_ok e \<Longrightarrow>
   insertLoop e' rs t n = insertLoop e rs t n"
  by (simp add: insertLoop_closed attempts_cong [of e' e] accepted_cong [of e' e])

text \<open>
  C6. Take an import that is answered with the summary when both aggregate queries
  succeed. When one of the two queries fails instead, the same request is answered 500,
  and the table is the same committed one: it holds the inserted rows.
\<close>

theorem aggregation_failure_keeps_committed_rows:
  assumes "handlePostPrices (e\<lparr>count_ok := True, sum_ok := True\<rparr>) r db = Some (JsonResult res, db')"
    and "\<not> count_ok e \<or> \<not> sum_ok e"
  shows "handlePostPrices e r db = Some (HttpError 500 ''Internal Server Error'', db') \<and>
         length (rows db') = length (rows db) + TotalItems res"
proof -
  let ?e = "e\<lparr>count_ok := True, sum_ok := True\<rparr>"
  have loop: "\<And>rs t n. insertLoop ?e rs t n = insertLoop e rs t n"
    by (rule insertLoop_cong) simp_all
  have arch: "archiveOf ?e r = archiveOf e r"
    by (auto simp: archiveOf_def split: option.splits)
  obtain files where a: "archiveOf e r = Some files"
    using assms(1) handlePostPrices_no_archive [of ?e r db] arch
    by (cases "archiveOf e r") auto
  from assms(1) a arch obtain f where f: "findCSV files = Some f"
    and run: "runTransaction ?e f db = Some (JsonResult res, db')"
    by (auto simp: handlePostPrices_archive split: option.splits)
  have "runTransaction e f db = Some (HttpError 500 ''Internal Server Error'', db')"
    using run assms(2)
    by (auto simp: runTransaction_def loop Commit_def getInsertResult_def
             split: if_splits option.splits prod.splits)
  then have h: "handlePostPrices e r db = Some (HttpError 500 ''Internal Server Error'', db')"
    by (simp add: handlePostPrices_archive [OF a] f)
  from runTransaction_json [OF run]
  have "length (rows db') = length (rows db) + TotalItems res"
    by (auto simp: getInsertResult_def stored_def)
  with h show ?thesis by blast
qed


theorem aggregation_failure_keeps_committed_rows_witness:
  "\<not> sum_ok (int32Env\<lparr>sum_ok := False\<rparr>) \<and>
   handlePostPrices (int32Env\<lparr>sum_ok := False\<rparr>) (uploadOf ''data.csv'' sampleRows) emptyTable =
     Some (HttpError 500 ''Internal Server Error'', sampleTable) \<and>
   length (rows sampleTable) = length (rows emptyTable) + 2"
proof -
  have ok: "handlePostPrices (int32Env\<lparr>sum_ok := False\<rparr>\<lparr>count_ok := True, sum_ok := True\<rparr>)
              (uploadOf ''data.csv'' sampleRows) emptyTable =
            Some (JsonResult \<lparr>TotalItems = 2, TotalCategories = 1, TotalPrice = 61 / 2\<rparr>, sampleTable)"
    by (simp add: eval_defs sampleRows_def sampleTable_def)
  have bad: "\<not> count_ok (int32Env\<lparr>sum_ok := False\<rparr>) \<or> \<not> sum_ok (int32Env\<lparr>sum_ok := False\<rparr>)"
    by simp
  from aggregation_failure_keeps_committed_rows [OF ok bad] show ?thesis by simp
qed

subsection \<open>Uploads that are no archive\<close>

text \<open>
  C7. A request that is not multipart, has no file, carries bytes that are no archive, or
  an archive without the data entry, is answered 400 with the table unchanged, and the
  answer does not depend on what any database call would do.
\<close>

theorem unrecognized_upload_is_client_error:
  assumes "notRecognized r"
  shows "(\<exists>m. handlePostPrices e r db = Some (HttpError 400 m, db)) \<and>
         (ToLower e' = ToLower e \<longrightarrow> handlePostPrices e' r db = handlePostPrices e r db)"
  using assms
  by (auto simp: notRecognized_def handlePostPrices_def
           split: option.splits file_body.splits)

theorem unrecognized_upload_is_client_error_witness:
  "notRecognized textUpload \<and> notRecognized garbageUpload \<and> notRecognized readmeUpload \<and>
   (\<exists>m. handlePostPrices okEnv textUpload sampleTable = Some (HttpError 400 m, sampleTable)) \<and>
   (\<exists>m. handlePostPrices okEnv garbageUpload sampleTable = Some (HttpError 400 m, sampleTable)) \<and>
   (\<exists>m. handlePostPrices okEnv readmeUpload sampleTable = Some (HttpError 400 m, sampleTable))"
proof -
  have a: "notRecognized textUpload" by (simp add: notRecognized_def textUpload_def)
  have b: "notRecognized garbageUpload"
    by (simp add: notRecognized_def garbageUpload_def HasPrefix_def)
  have c: "notRecognized readmeUpload"
    by (simp add: notRecognized_def readmeUpload_def HasPrefix_def HasSuffix_def)
  from unrecognized_upload_is_client_error [OF a, of okEnv sampleTable]
       unrecognized_upload_is_client_error [OF b, of okEnv sampleTable]
       unrecognized_upload_is_client_error [OF c, of okEnv sampleTable] a b c
  show ?thesis by blast
qed

subsection \<open>The file name\<close>

text \<open>
  C10. An upload whose file name, in lower case, does not end in \<open>.zip\<close> is answered 400
  with the table unchanged, with the message of the file name check when the request is
  multipart, and whatever the body of the file is, a valid archive included. The check
  comes on top of the one on the bytes: a name that ends in \<open>.zip\<close> over bytes that are
  no archive is answered 400 as well.
\<close>

theorem filename_gate_rejects_before_reading:
  assumes "form r = Some (Some header)"
    and "\<not> HasSuffix (ToLower e (Filename header)) ''.zip''"
  shows "(\<exists>m. handlePostPrices e r db = Some (HttpError 400 m, db)) \<and>
         (Contains (ContentType r) ''multipart/form-data'' \<longrightarrow>
            handlePostPrices e r db = Some (HttpError 400 ''File must be a ZIP archive'', db)) \<and>
         (\<forall>b. handlePostPrices e (r\<lparr>form := Some (Some (header\<lparr>body := b\<rparr>))\<rparr>) db =
              handlePostPrices e r db) \<and>
         (Contains (ContentType r') ''multipart/form-data'' \<and> form r' = Some (Some header') \<and>
          HasSuffix (ToLower e (Filename header')) ''.zip'' \<and> body header' = Bytes None \<longrightarrow>
            handlePostPrices e r' db = Some (HttpError 400 ''Bad Request'', db))"
  using assms by (auto simp: handlePostPrices_def)

theorem filename_gate_rejects_before_reading_witness:
  "form renamedUpload = Some (Some \<lparr>Filename = ''prices.ZIP.bak'',
        body = Bytes (Some [\<lparr>Name = ''data.csv'',
          Open = Some \<lparr>reads = map Record sampleRows, ending = EOF\<rparr>\<rparr>])\<rparr>) \<and>
   \<not> HasSuffix (ToLower okEnv ''prices.ZIP.bak'') ''.zip'' \<and>
   handlePostPrices okEnv renamedUpload emptyTable =
     Some (HttpError 400 ''File must be a ZIP archive'', emptyTable)"
proof -
  have f: "form renamedUpload = Some (Some \<lparr>Filename = ''prices.ZIP.bak'',
        body = Bytes (Some [\<lparr>Name = ''data.csv'',
          Open = Some \<lparr>reads = map Record sampleRows, ending = EOF\<rparr>\<rparr>])\<rparr>)"
    by (simp add: renamedUpload_def)
  have n: "\<not> HasSuffix (ToLower okEnv (Filename \<lparr>Filename = ''prices.ZIP.bak'',
        body = Bytes (Some [\<lparr>Name = ''data.csv'',
          Open = Some \<lparr>reads = map Record sampleRows, ending = EOF\<rparr>\<rparr>])\<rparr>)) ''.zip''"
    by (simp add: okEnv_def asciiLower_def HasSuffix_def)
  have c: "Contains (ContentType renamedUpload) ''multipart/form-data''"
    by (simp add: renamedUpload_def HasPrefix_def)
  from filename_gate_rejects_before_reading [OF f n, of emptyTable] c f n
  show ?thesis by simp
qed


subsection \<open>The entry of the archive\<close>

lemma findCSV_find: "findCSV files = find (\<lambda>f. HasSuffix (Name f) ''data.csv'') files"
  by (induction files) simp_all

lemma findCSV_only:
  "f \<in> set files \<Longrightarrow> HasSuffix (Name f) ''data.csv'' \<Longrightarrow>
   \<forall>g\<in>set files. g \<noteq> f \<longrightarrow> \<not> HasSuffix (Name g) ''data.csv'' \<Longrightarrow>
   findCSV files = Some f"
  by (induction files) auto

lemma findCSV_none:
  "\<forall>g\<in>set files. \<not> HasSuffix (Name g) ''data.csv'' \<Longrightarrow> findCSV files = None"
  by (induction files) auto

lemma runTransaction_succeeds:
  "begin_ok e \<Longrightarrow> prepare_ok e \<Longrightarrow> commit_ok e \<Longrightarrow> count_ok e \<Longrightarrow> sum_ok e \<Longrightarrow>
   Open f = Some st \<Longrightarrow> ending st = EOF \<Longrightarrow>
   \<exists>res db'. runTransaction e f db = Some (JsonResult res, db')"
  by (simp add: runTransaction_def Commit_def getInsertResult_def split: prod.splits)

text \<open>
  C8. \<open>findCSV\<close> returns the first entry whose name ends in \<open>data.csv\<close>. When the only
  such entry of the uploaded archive is named \<open>foo/data.csv\<close>, it is the entry the
  handler imports, and the import is answered with the summary when the entry opens, its
  stream ends and every database call succeeds. When no name ends in \<open>data.csv\<close> the
  request is answered 400 with the message that the CSV file was not found.
\<close>

theorem findCSV_selects_first_suffix_match:
  "findCSV files = find (\<lambda>f. HasSuffix (Name f) ''data.csv'') files \<and>
   (archiveOf e r = Some files \<and> f \<in> set files \<and> Name f = ''foo/data.csv'' \<and>
    (\<forall>g\<in>set files. g \<noteq> f \<longrightarrow> \<not> HasSuffix (Name g) ''data.csv'') \<longrightarrow>
      findCSV files = Some f \<and> handlePostPrices e r db = runTransaction e f db \<and>
      (begin_ok e \<and> prepare_ok e \<and> commit_ok e \<and> count_ok e \<and> sum_ok e \<and>
       Open f = Some st \<and> ending st = EOF \<longrightarrow>
         (\<exists>res db'. handlePostPrices e r db = Some (JsonResult res, db')))) \<and>
   (archiveOf e r = Some files \<and> (\<forall>g\<in>set files. \<not> HasSuffix (Name g) ''data.csv'') \<longrightarrow>
      handlePostPrices e r db = Some (HttpError 400 ''CSV file not found in ZIP'', db))"
proof -
  have nested: "HasSuffix ''foo/data.csv'' ''data.csv''" by (simp add: HasSuffix_def)
  have two: "findCSV files = Some f \<and> handlePostPrices e r db = runTransaction e f db \<and>
      (begin_ok e \<and> prepare_ok e \<and> commit_ok e \<and> count_ok e \<and> sum_ok e \<and>
       Open f = Some st \<and> ending st = EOF \<longrightarrow>
         (\<exists>res db'. handlePostPrices e r db = Some (JsonResult res, db')))"
    if a: "archiveOf e r = Some files" and m: "f \<in> set files" and n: "Name f = ''foo/data.csv''"
      and o: "\<forall>g\<in>set files. g \<noteq> f \<longrightarrow> \<not> HasSuffix (Name g) ''data.csv''"
  proof -
    have f: "findCSV files = Some f"
      using findCSV_only [OF m _ o] nested n by simp
    have h: "handlePostPrices e r db = runTransaction e f db"
      by (simp add: handlePostPrices_archive [OF a] f)
    from f h runTransaction_succeeds [of e f st db] show ?thesis by auto
  qed
  have three: "handlePostPrices e r db = Some (HttpError 400 ''CSV file not found in ZIP'', db)"
    if a: "archiveOf e r = Some files" and o: "\<forall>g\<in>set files. \<not> HasSuffix (Name g) ''data.csv''"
    by (simp add: handlePostPrices_archive [OF a] findCSV_none [OF o])
  from findCSV_find two three show ?thesis by blast
qed

theorem findCSV_selects_first_suffix_match_witness:
  "handlePostPrices int32Env nestedUpload emptyTable =
     Some (JsonResult \<lparr>TotalItems = 2, TotalCategories = 1, TotalPrice = 61 / 2\<rparr>, sampleTable) \<and>
   findCSV [\<lparr>Name = ''notes.txt'', Open = None\<rparr>,
            \<lparr>Name = ''foo/data.csv'',
             Open = Some \<lparr>reads = map Record sampleRows, ending = EOF\<rparr>\<rparr>] =
     Some \<lparr>Name = ''foo/data.csv'',
           Open = Some \<lparr>reads = map Record sampleRows, ending = EOF\<rparr>\<rparr> \<and>
   handlePostPrices int32Env readmeUpload sampleTable =
     Some (HttpError 400 ''CSV file not found in ZIP'', sampleTable)"
proof -
  let ?f = "\<lparr>Name = ''foo/data.csv'',
             Open = Some \<lparr>reads = map Record sampleRows, ending = EOF\<rparr>\<rparr>"
  let ?files = "[\<lparr>Name = ''notes.txt'', Open = None\<rparr>, ?f]"
  let ?other = "[\<lparr>Name = ''readme.txt'', Open = Some \<lparr>reads = [], ending = EOF\<rparr>\<rparr>]"
  have a: "archiveOf int32Env nestedUpload = Some ?files"
    by (simp add: archiveOf_def nestedUpload_def int32Env_def okEnv_def asciiLower_def
                  HasPrefix_def HasSuffix_def)
  have o: "\<forall>g\<in>set ?files. g \<noteq> ?f \<longrightarrow> \<not> HasSuffix (Name g) ''data.csv''"
    by (simp add: HasSuffix_def)
  have b: "archiveOf int32Env readmeUpload = Some ?other"
    by (simp add: archiveOf_def readmeUpload_def int32Env_def okEnv_def asciiLower_def
                  HasPrefix_def HasSuffix_def)
  have n: "\<forall>g\<in>set ?other. \<not> HasSuffix (Name g) ''data.csv''"
    by (simp add: HasSuffix_def)
  have run: "runTransaction int32Env ?f emptyTable =
     Some (JsonResult \<lparr>TotalItems = 2, TotalCategories = 1, TotalPrice = 61 / 2\<rparr>, sampleTable)"
    by (simp add: eval_defs sampleRows_def sampleTable_def)
  from findCSV_selects_first_suffix_match [of ?files int32Env nestedUpload ?f emptyTable]
  have "findCSV ?files = Some ?f \<and>
        handlePostPrices int32Env nestedUpload emptyTable = runTransaction int32Env ?f emptyTable"
    using a o by (simp add: HasSuffix_def)
  moreover
  from findCSV_selects_first_suffix_match [of ?other int32Env readmeUpload _ sampleTable]
  have "handlePostPrices int32Env readmeUpload sampleTable =
     Some (HttpError 400 ''CSV file not found in ZIP'', sampleTable)"
    using b n by (simp add: HasSuffix_def)
  ultimately show ?thesis using run by simp
qed


subsection \<open>The summary\<close>




subsection \<open>Export followed by import\<close>

lemmas export_defs =
  roundTrip_def handleGetPrices_def exportRow_def Itoa_def zeroPad_def roundHalfEven_def
  Sprintf2f_def FormatDate_def

text \<open>
  C1. The export writes the columns id, product_id, name, category, price, create_date;
  the import reads the product identifier, the name and the category from the columns 0,
  1 and 2. On a table of one row (identifier 1, product 7, apple, fruit, 10.50), export
  followed by import inserts a row with product identifier 1, name \<open>7\<close> and category
  \<open>apple\<close>: the field values of the exported row are not preserved.
\<close>

theorem roundTrip_shifts_columns:
  "roundTrip okEnv fruitTable =
     Some (JsonResult \<lparr>TotalItems = 1, TotalCategories = 2, TotalPrice = 21\<rparr>,
           \<lparr>rows = rows fruitTable @
              [\<lparr>rowID = 2, item = \<lparr>productID = 1, name = ''7'', category = ''apple'',
                 price = 21 / 2, createDate = \<lparr>year = 2024, month = 1, day = 15\<rparr>\<rparr>\<rparr>],
             seq = 2\<rparr>)"
  by (simp add: export_defs eval_defs fruitTable_def)


end
